theory Spec2Isabelle
  imports Complex_Main "HOL-Library.Sublist" "HOL-Library.Word" "HOL-Library.AList"
begin

section \<open>JavaScript values as the host reads them\<close>

text \<open>
  An extension's \<^verbatim>\<open>module.exports\<close> is an arbitrary JavaScript value; the host only
  tests it for truthiness, takes \<^verbatim>\<open>typeof\<close>, reads named properties, compares with
  \<^verbatim>\<open>!==\<close> and interpolates it into messages. Objects, arrays and functions carry a
  reference (their identity under \<^verbatim>\<open>===\<close>) and their own properties. Numbers are reals
  with \<open>JNaN\<close> apart; getters, proxies, symbols and inherited properties are outside the
  model.
\<close>

datatype jsval =
    JUndefined
  | JNull
  | JBool bool
  | JNum real
  | JNaN
  | JStr string
  | JFun nat "(string \<times> jsval) list"
  | JArr nat "jsval list"
  | JObj nat "(string \<times> jsval) list"

text \<open>\<^verbatim>\<open>!v\<close> is \<open>\<not> truthy v\<close>.\<close>

fun truthy :: "jsval \<Rightarrow> bool" where
  "truthy JUndefined = False"
| "truthy JNull = False"
| "truthy (JBool b) = b"
| "truthy (JNum r) = (r \<noteq> 0)"
| "truthy JNaN = False"
| "truthy (JStr s) = (s \<noteq> [])"
| "truthy (JFun r ps) = True"
| "truthy (JArr r xs) = True"
| "truthy (JObj r ps) = True"

fun typeof :: "jsval \<Rightarrow> string" where
  "typeof JUndefined = ''undefined''"
| "typeof JNull = ''object''"
| "typeof (JBool b) = ''boolean''"
| "typeof (JNum r) = ''number''"
| "typeof JNaN = ''number''"
| "typeof (JStr s) = ''string''"
| "typeof (JFun r ps) = ''function''"
| "typeof (JArr r xs) = ''object''"
| "typeof (JObj r ps) = ''object''"

fun nullish :: "jsval \<Rightarrow> bool" where
  "nullish JUndefined = True"
| "nullish JNull = True"
| "nullish v = False"

text \<open>
  \<open>get_prop v k\<close> is the value of \<^verbatim>\<open>v[k]\<close> for a \<open>v\<close> that is not null or undefined (where
  the read throws, see \<open>check_tab\<close>). The host reads only the names id, name, tabs, label,
  icon, component and screens, none of which a primitive or an array has.
\<close>

fun get_prop :: "jsval \<Rightarrow> string \<Rightarrow> jsval" where
  "get_prop (JObj r ps) k = (case map_of ps k of None \<Rightarrow> JUndefined | Some v \<Rightarrow> v)"
| "get_prop (JFun r ps) k = (case map_of ps k of None \<Rightarrow> JUndefined | Some v \<Rightarrow> v)"
| "get_prop v k = JUndefined"

text \<open>\<^verbatim>\<open>a === b\<close>: by value on primitives (NaN equals nothing), by reference otherwise.\<close>

fun strict_eq :: "jsval \<Rightarrow> jsval \<Rightarrow> bool" where
  "strict_eq JUndefined JUndefined = True"
| "strict_eq JNull JNull = True"
| "strict_eq (JBool a) (JBool b) = (a = b)"
| "strict_eq (JNum a) (JNum b) = (a = b)"
| "strict_eq (JStr a) (JStr b) = (a = b)"
| "strict_eq (JFun r ps) (JFun r' ps') = (r = r')"
| "strict_eq (JArr r xs) (JArr r' xs') = (r = r')"
| "strict_eq (JObj r ps) (JObj r' ps') = (r = r')"
| "strict_eq a b = False"

text \<open>
  What a thrown value looks like to a \<^verbatim>\<open>catch\<close>: an \<^verbatim>\<open>Error\<close> created by the host with
  its message, or the engine's \<^verbatim>\<open>TypeError\<close> for reading property \<open>k\<close> of null or
  undefined (its message text is the engine's own).
\<close>

datatype error = Error string | TypeError jsval string

section \<open>The environment of one host operation\<close>

text \<open>
  A parsed archive as JSZip presents it: its members by name, in the order of
  \<^verbatim>\<open>Object.keys(zip.files)\<close>. A file member yields its text (\<^verbatim>\<open>async('string')\<close>) and its
  base64 encoding (\<^verbatim>\<open>async('base64')\<close>).
\<close>

record zfile =
  as_string :: string
  as_base64 :: string

datatype zentry = ZDir | ZFile zfile

type_synonym zip = "(string \<times> zentry) list"

text \<open>
  Everything the host code calls but does not define:
  \<^item> \<open>run code\<close>: the outcome of \<^verbatim>\<open>new Function('module', 'exports', ...keys, code)\<close> applied
    to a fresh \<^verbatim>\<open>mod\<close>; \<open>Inl m\<close> when it throws (with \<open>m\<close> the thrown value's
    \<^verbatim>\<open>message\<close> as interpolated), \<open>Inr v\<close> with \<open>v\<close> the final \<^verbatim>\<open>mod.exports\<close>;
  \<^item> \<open>toStr\<close>: the engine's string conversion of a value that is not a string;
  \<^item> \<open>typeErrorMessage\<close>: the engine's message for a property read of null or undefined;
  \<^item> \<open>jszip\<close>: whether \<^verbatim>\<open>getJSZip\<close> obtains the library, \<open>loadAsync\<close>: its parser
    (\<open>Inl m\<close> when it rejects with message \<open>m\<close>);
  \<^item> \<open>now\<close>: \<^verbatim>\<open>Date.now()\<close>;
  \<^item> \<open>getItem_ok\<close>, \<open>setItem_ok\<close>: whether the durable store's read and write succeed.
\<close>

record env =
  run :: "string \<Rightarrow> string + jsval"
  toStr :: "jsval \<Rightarrow> string"
  typeErrorMessage :: "jsval \<Rightarrow> string \<Rightarrow> string"
  jszip :: bool
  loadAsync :: "8 word list \<Rightarrow> string + zip"
  now :: int
  getItem_ok :: bool
  setItem_ok :: bool

text \<open>Template interpolation \<^verbatim>\<open>${v}\<close> and property-key conversion: a string is itself.\<close>

fun js_string :: "env \<Rightarrow> jsval \<Rightarrow> string" where
  "js_string E (JStr s) = s"
| "js_string E v = toStr E v"

fun message :: "env \<Rightarrow> error \<Rightarrow> string" where
  "message E (Error m) = m"
| "message E (TypeError v k) = typeErrorMessage E v k"

section \<open>Extension Loader: \<^verbatim>\<open>evalMainJs\<close>\<close>

text \<open>The body of the loop over \<^verbatim>\<open>exp.tabs\<close>; \<open>Inr ()\<close> when no check throws.\<close>

definition check_tab :: "env \<Rightarrow> jsval \<Rightarrow> error + unit" where
  \<open>check_tab E tab =
    (if nullish tab then Inl (TypeError tab ''id'')
     else if \<not> truthy (get_prop tab ''id'') then Inl (Error ''Tab missing "id"'')
     else if \<not> truthy (get_prop tab ''label'') then
       Inl (Error (''Tab "'' @ js_string E (get_prop tab ''id'') @ ''" missing "label"''))
     else if \<not> truthy (get_prop tab ''icon'') then
       Inl (Error (''Tab "'' @ js_string E (get_prop tab ''id'') @ ''" missing "icon"''))
     else if typeof (get_prop tab ''component'') \<noteq> ''function'' then
       Inl (Error (''Tab "'' @ js_string E (get_prop tab ''id'') @
                   ''": "component" must be a function (got '' @
                   typeof (get_prop tab ''component'') @ '')''))
     else if truthy (get_prop tab ''screens'') \<and> typeof (get_prop tab ''screens'') \<noteq> ''object'' then
       Inl (Error (''Tab "'' @ js_string E (get_prop tab ''id'') @ ''": "screens" must be an object''))
     else Inr ())\<close>

fun check_tabs :: "env \<Rightarrow> jsval list \<Rightarrow> error + unit" where
  "check_tabs E [] = Inr ()"
| "check_tabs E (tab # tabs) =
     (case check_tab E tab of Inl e \<Rightarrow> Inl e | Inr u \<Rightarrow> check_tabs E tabs)"

text \<open>The checks of \<^verbatim>\<open>evalMainJs\<close> on the exported value, in the source's order.\<close>

definition validate :: "env \<Rightarrow> jsval \<Rightarrow> error + jsval" where
  \<open>validate E exports =
    (if \<not> truthy exports \<or> typeof exports \<noteq> ''object'' then
       Inl (Error ''main.js must assign module.exports = { id, name, tabs }'')
     else if \<not> truthy (get_prop exports ''id'') then Inl (Error ''Missing field: "id"'')
     else if \<not> truthy (get_prop exports ''name'') then Inl (Error ''Missing field: "name"'')
     else (case get_prop exports ''tabs'' of
             JArr r tabs \<Rightarrow>
               if tabs = [] then Inl (Error ''Missing or empty "tabs" array'')
               else (case check_tabs E tabs of Inl e \<Rightarrow> Inl e | Inr u \<Rightarrow> Inr exports)
           | _ \<Rightarrow> Inl (Error ''Missing or empty "tabs" array'')))\<close>

definition evalMainJs :: "env \<Rightarrow> string \<Rightarrow> error + jsval" where
  "evalMainJs E code =
    (case run E code of
       Inl m \<Rightarrow> Inl (Error (''JS error in main.js: '' @ m))
     | Inr exports \<Rightarrow> validate E exports)"

section \<open>Archive Reader: \<^verbatim>\<open>parseZipBuffer\<close>, \<^verbatim>\<open>parseLhubWeb\<close>\<close>

text \<open>\<^verbatim>\<open>zip.file(name)\<close>: the member of that name if it is a file, else null.\<close>

definition zip_file :: "zip \<Rightarrow> string \<Rightarrow> zfile option" where
  "zip_file z name = (case map_of z name of Some (ZFile f) \<Rightarrow> Some f | _ \<Rightarrow> None)"

text \<open>\<^verbatim>\<open>xs.join(sep)\<close> on an array of strings.\<close>

fun join :: "string \<Rightarrow> string list \<Rightarrow> string" where
  "join sep [] = []"
| "join sep [x] = x"
| "join sep (x # y # ys) = x @ sep @ join sep (y # ys)"

definition parseZipBuffer :: "env \<Rightarrow> 8 word list \<Rightarrow> error + (jsval \<times> string \<times> string option)" where
  "parseZipBuffer E buffer =
    (case loadAsync E buffer of
       Inl m \<Rightarrow> Inl (Error (''Not a valid zip/lhub file: '' @ m))
     | Inr z \<Rightarrow>
        (let files = map fst z in
         case zip_file z ''main.js'' of
           None \<Rightarrow> Inl (Error (''main.js not found. Found: '' @ join '', '' files))
         | Some mainFile \<Rightarrow>
            (let mainJs = as_string mainFile;
                 iconUri = (case zip_file z ''icon.png'' of
                              None \<Rightarrow> None
                            | Some iconFile \<Rightarrow> Some (''data:image/png;base64,'' @ as_base64 iconFile))
             in case evalMainJs E mainJs of
                  Inl e \<Rightarrow> Inl e
                | Inr manifest \<Rightarrow> Inr (manifest, mainJs, iconUri))))"

text \<open>A browser \<^verbatim>\<open>File\<close>: its name and, when the \<^verbatim>\<open>FileReader\<close> can read it, its bytes.\<close>

datatype web_file = File (file_name: string) (file_bytes: "8 word list option")

definition readAsArrayBuffer :: "web_file \<Rightarrow> error + 8 word list" where
  \<open>readAsArrayBuffer f =
    (case file_bytes f of
       None \<Rightarrow> Inl (Error (''FileReader failed on "'' @ file_name f @ ''"''))
     | Some b \<Rightarrow> Inr b)\<close>

definition parseLhubWeb :: "env \<Rightarrow> web_file \<Rightarrow> error + (jsval \<times> string \<times> string option)" where
  "parseLhubWeb E f =
    (if \<not> jszip E then Inl (Error ''Failed to load JSZip from CDN'')
     else case readAsArrayBuffer f of
            Inl e \<Rightarrow> Inl e
          | Inr buf \<Rightarrow> parseZipBuffer E buf)"

section \<open>Extension Registry and Persistence Store\<close>

record Stamped =
  iconUri :: "string option"
  installedAt :: int

record PersistedExt = Stamped +
  mainJs :: string

record InstalledExtension = Stamped +
  manifest :: jsval

text \<open>
  The object kept under \<^verbatim>\<open>STORAGE_KEY\<close>, by its own entries in enumeration order (JSON
  encoding and decoding are the identity on it). An assignment \<^verbatim>\<open>stored[k] = v\<close> of an
  object \<open>v\<close> follows the language: a key the object has keeps its place and takes the new
  value; the key \<^verbatim>\<open>__proto__\<close>, when the object does not have it as an entry, sets the
  object's prototype and adds no entry, so that \<^verbatim>\<open>JSON.stringify\<close> writes nothing for it; a
  new key that is an array index (a canonical decimal numeral below \<open>2^32 - 1\<close>) goes among
  the array indices, which enumerate first and in ascending order; any other new key goes
  last. \<^verbatim>\<open>delete stored[k]\<close> is \<open>AList.delete k\<close>.
\<close>

definition digit :: "char \<Rightarrow> bool" where
  "digit c = (48 \<le> (of_char c :: nat) \<and> (of_char c :: nat) \<le> 57)"

definition numeral_value :: "string \<Rightarrow> nat" where
  "numeral_value s = foldl (\<lambda>n c. 10 * n + (of_char c - 48)) 0 s"

definition array_index :: "string \<Rightarrow> nat option" where
  "array_index k =
    (if k \<noteq> [] \<and> list_all digit k \<and> (k = ''0'' \<or> hd k \<noteq> CHR ''0'') \<and>
        numeral_value k < 4294967295
     then Some (numeral_value k) else None)"

fun insert_index :: "nat \<Rightarrow> string \<Rightarrow> 'v \<Rightarrow> (string \<times> 'v) list \<Rightarrow> (string \<times> 'v) list" where
  "insert_index i k v [] = [(k, v)]"
| "insert_index i k v ((k', v') # rest) =
     (case array_index k' of
        Some j \<Rightarrow> if j < i then (k', v') # insert_index i k v rest
                  else (k, v) # (k', v') # rest
      | None \<Rightarrow> (k, v) # (k', v') # rest)"

definition obj_set :: "string \<Rightarrow> 'v \<Rightarrow> (string \<times> 'v) list \<Rightarrow> (string \<times> 'v) list" where
  "obj_set k v obj =
    (if map_of obj k \<noteq> None then AList.update k v obj
     else if k = ''__proto__'' then obj
     else case array_index k of
            Some i \<Rightarrow> insert_index i k v obj
          | None \<Rightarrow> obj @ [(k, v)])"

type_synonym store = "(string \<times> PersistedExt) list"

text \<open>
  The provider's state: the React state \<^verbatim>\<open>extensions\<close> and the durable item. Each
  operation below runs from start to end on it; operations that overlap at an
  \<^verbatim>\<open>await\<close> are not modelled.
\<close>

record hub =
  extensions :: "InstalledExtension list"
  storage :: store

definition storageLoad :: "env \<Rightarrow> store \<Rightarrow> store" where
  "storageLoad E disk = (if getItem_ok E then disk else [])"

definition storageSave :: "env \<Rightarrow> store \<Rightarrow> store \<Rightarrow> store" where
  "storageSave E m disk = (if setItem_ok E then m else disk)"

record result =
  ok :: bool
  error :: "string option"

definition installFromFile :: "env \<Rightarrow> web_file \<Rightarrow> hub \<Rightarrow> result \<times> hub" where
  "installFromFile E f st =
    (case parseLhubWeb E f of
       Inl e \<Rightarrow> (\<lparr>ok = False, error = Some (message E e)\<rparr>, st)
     | Inr (m, src, icon) \<Rightarrow>
        (let installed = \<lparr>iconUri = icon, installedAt = now E, manifest = m\<rparr>;
             exts = filter (\<lambda>e. \<not> strict_eq (get_prop (manifest e) ''id'') (get_prop m ''id''))
                      (extensions st) @ [installed];
             stored = storageLoad E (storage st);
             stored' = obj_set (js_string E (get_prop m ''id''))
                         \<lparr>iconUri = icon, installedAt = installedAt installed, mainJs = src\<rparr> stored
         in (\<lparr>ok = True, error = None\<rparr>,
             \<lparr>extensions = exts, storage = storageSave E stored' (storage st)\<rparr>)))"

definition uninstallExtension :: "env \<Rightarrow> jsval \<Rightarrow> hub \<Rightarrow> hub" where
  "uninstallExtension E ident st =
    (let exts = filter (\<lambda>e. \<not> strict_eq (get_prop (manifest e) ''id'') ident) (extensions st);
         stored = storageLoad E (storage st);
         stored' = AList.delete (js_string E ident) stored
     in \<lparr>extensions = exts, storage = storageSave E stored' (storage st)\<rparr>)"

text \<open>The loop of the rehydration effect: a record that fails to load is skipped.\<close>

fun rehydrate_loop :: "env \<Rightarrow> InstalledExtension list \<Rightarrow> store \<Rightarrow> InstalledExtension list" where
  "rehydrate_loop E rehydrated [] = rehydrated"
| "rehydrate_loop E rehydrated ((ident, p) # rest) =
     (case evalMainJs E (mainJs p) of
        Inl e \<Rightarrow> rehydrate_loop E rehydrated rest
      | Inr m \<Rightarrow>
          rehydrate_loop E
            (rehydrated @ [\<lparr>iconUri = iconUri p, installedAt = installedAt p, manifest = m\<rparr>]) rest)"

definition rehydrateAll :: "env \<Rightarrow> hub \<Rightarrow> hub" where
  "rehydrateAll E st =
    (let stored = storageLoad E (storage st) in
     if stored = [] then st
     else (let rehydrated = rehydrate_loop E [] stored in
           if rehydrated \<noteq> [] then st\<lparr>extensions := rehydrated\<rparr> else st))"

section \<open>The contracts, as the specification words them\<close>

text \<open>
  The structural contract of a manifest candidate: \<open>id\<close> and \<open>name\<close> non-empty, \<open>tabs\<close> a
  non-empty array, every tab with \<open>id\<close>, \<open>label\<close>, \<open>icon\<close> and a callable \<open>component\<close>, and
  \<open>screens\<close>, when set, an object. \<open>manifest_violations m\<close> lists the fields of \<open>m\<close> that break
  it, in document order (a field counts as missing when its value is falsy).
\<close>

definition tab_violations :: "jsval \<Rightarrow> string list" where
  "tab_violations tab =
     filter (\<lambda>f. \<not> truthy (get_prop tab f)) [''id'', ''label'', ''icon''] @
     (if typeof (get_prop tab ''component'') = ''function'' then [] else [''component'']) @
     (if truthy (get_prop tab ''screens'') \<and> typeof (get_prop tab ''screens'') \<noteq> ''object''
      then [''screens''] else [])"

definition tab_entries :: "jsval \<Rightarrow> jsval list" where
  "tab_entries m = (case get_prop m ''tabs'' of JArr r tabs \<Rightarrow> tabs | _ \<Rightarrow> [])"

definition manifest_violations :: "jsval \<Rightarrow> string list" where
  "manifest_violations m =
     filter (\<lambda>f. \<not> truthy (get_prop m f)) [''id'', ''name''] @
     (if tab_entries m = [] then [''tabs''] else concat (map tab_violations (tab_entries m)))"

text \<open>The first violation of a candidate lies in a tab entry that is null or undefined.\<close>

definition null_tab_first :: "jsval \<Rightarrow> bool" where
  "null_tab_first m =
    (truthy m \<and> typeof m = ''object'' \<and> truthy (get_prop m ''id'') \<and>
     truthy (get_prop m ''name'') \<and>
     (case find (\<lambda>t. tab_violations t \<noteq> []) (tab_entries m) of
        Some t \<Rightarrow> nullish t
      | None \<Rightarrow> False))"

text \<open>A message names a field when it contains the field's name in double quotes.\<close>

definition names_field :: "string \<Rightarrow> string \<Rightarrow> bool" where
  \<open>names_field msg f = sublist (''"'' @ f @ ''"'') msg\<close>

text \<open>
  The persisted records that rehydration is to install: those whose source loads, each
  as an installed extension, in the persisted map's order.
\<close>

definition loaded_records :: "env \<Rightarrow> store \<Rightarrow> InstalledExtension list" where
  "loaded_records E stored =
     map (\<lambda>(ident, p). \<lparr>iconUri = iconUri p, installedAt = installedAt p,
                          manifest = projr (evalMainJs E (mainJs p))\<rparr>)
         (filter (\<lambda>(ident, p). \<not> isl (evalMainJs E (mainJs p))) stored)"

section \<open>Sample inputs\<close>

text \<open>
  A small engine and archive parser for evaluating the model: six source texts with the
  values they export, and six archives given by their single byte.
\<close>

definition tab_home :: jsval where
  "tab_home = JObj 2 [(''id'', JStr ''home''), (''label'', JStr ''Home''),
                      (''icon'', JStr ''home''), (''component'', JFun 3 [])]"

definition manifest_x :: jsval where
  "manifest_x = JObj 1 [(''id'', JStr ''com.t.x''), (''name'', JStr ''X''),
                        (''version'', JStr ''1.0.0''), (''tabs'', JArr 4 [tab_home])]"

definition manifest_x2 :: jsval where
  "manifest_x2 = JObj 5 [(''id'', JStr ''com.t.x''), (''name'', JStr ''X''),
                         (''version'', JStr ''2.0.0''), (''tabs'', JArr 6 [tab_home])]"

definition manifest_y :: jsval where
  "manifest_y = JObj 7 [(''id'', JStr ''com.t.y''), (''name'', JStr ''Y''),
                        (''version'', JStr ''1.0.0''), (''tabs'', JArr 8 [tab_home])]"

definition manifest_noname :: jsval where
  "manifest_noname = JObj 9 [(''id'', JStr ''com.t.z''), (''tabs'', JArr 10 [tab_home])]"

definition manifest_nulltab :: jsval where
  "manifest_nulltab = JObj 11 [(''id'', JStr ''a''), (''name'', JStr ''N''),
                               (''tabs'', JArr 12 [JNull])]"

definition manifest_proto :: jsval where
  "manifest_proto = JObj 13 [(''id'', JStr ''__proto__''), (''name'', JStr ''P''),
                             (''version'', JStr ''1.0.0''), (''tabs'', JArr 14 [tab_home])]"

definition demo_run :: "string \<Rightarrow> string + jsval" where
  "demo_run code =
    (if code = ''x1.js'' then Inr manifest_x
     else if code = ''x2.js'' then Inr manifest_x2
     else if code = ''y.js'' then Inr manifest_y
     else if code = ''noname.js'' then Inr manifest_noname
     else if code = ''nulltab.js'' then Inr manifest_nulltab
     else if code = ''proto.js'' then Inr manifest_proto
     else Inl ''Unexpected token'')"

definition demo_zip :: "8 word list \<Rightarrow> string + zip" where
  "demo_zip bytes =
    (if bytes = [1] then Inr [(''main.js'', ZFile \<lparr>as_string = ''x1.js'', as_base64 = ''eDE=''\<rparr>)]
     else if bytes = [2] then
       Inr [(''icon.png'', ZFile \<lparr>as_string = ''png'', as_base64 = ''cG5n''\<rparr>),
            (''main.js'', ZFile \<lparr>as_string = ''x2.js'', as_base64 = ''eDI=''\<rparr>)]
     else if bytes = [3] then
       Inr [(''main.js'', ZFile \<lparr>as_string = ''noname.js'', as_base64 = ''bm8=''\<rparr>)]
     else if bytes = [4] then
       Inr [(''src/'', ZDir),
            (''src/main.js'', ZFile \<lparr>as_string = ''x1.js'', as_base64 = ''eDE=''\<rparr>),
            (''README.md'', ZFile \<lparr>as_string = ''hello'', as_base64 = ''aGVsbG8=''\<rparr>)]
     else if bytes = [5] then
       Inr [(''main.js'', ZFile \<lparr>as_string = ''proto.js'', as_base64 = ''cHJvdG8=''\<rparr>)]
     else if bytes = [6] then
       Inr [(''main.js'', ZFile \<lparr>as_string = ''nulltab.js'', as_base64 = ''bnVsbA==''\<rparr>)]
     else Inl ''Corrupted zip'')"

definition demo_env :: env where
  "demo_env = \<lparr>run = demo_run, toStr = (\<lambda>v. ''[object Object]''),
     typeErrorMessage = (\<lambda>v k. ''Cannot read property''), jszip = True, loadAsync = demo_zip,
     now = 1700000000000, getItem_ok = True, setItem_ok = True\<rparr>"

lemmas demo_defs = demo_env_def demo_run_def demo_zip_def manifest_x_def manifest_x2_def
  manifest_y_def manifest_noname_def manifest_nulltab_def manifest_proto_def tab_home_def

text \<open>Three persisted records; the source of the second does not parse.\<close>

definition three_records :: store where
  "three_records =
    [(''com.t.x'', \<lparr>iconUri = None, installedAt = 10, mainJs = ''x1.js''\<rparr>),
     (''com.t.bad'', \<lparr>iconUri = None, installedAt = 20, mainJs = ''}{''\<rparr>),
     (''com.t.y'', \<lparr>iconUri = Some ''data:image/png;base64,cG5n'', installedAt = 30, mainJs = ''y.js''\<rparr>)]"

text \<open>A registry holding two extensions, with their persisted records.\<close>

definition hub_with_x :: hub where
  "hub_with_x =
    \<lparr>extensions = [\<lparr>iconUri = None, installedAt = 10, manifest = manifest_x\<rparr>,
                   \<lparr>iconUri = None, installedAt = 30, manifest = manifest_y\<rparr>],
     storage = [(''com.t.x'', \<lparr>iconUri = None, installedAt = 10, mainJs = ''x1.js''\<rparr>),
                (''com.t.y'', \<lparr>iconUri = None, installedAt = 30, mainJs = ''y.js''\<rparr>)]\<rparr>"

text \<open>
  A registry in which the extension with id \<^verbatim>\<open>__proto__\<close> is installed beside another one;
  the persisted map has the other one's record only.
\<close>

definition hub_with_proto :: hub where
  "hub_with_proto =
    \<lparr>extensions = [\<lparr>iconUri = None, installedAt = 10, manifest = manifest_x\<rparr>,
                   \<lparr>iconUri = None, installedAt = 20, manifest = manifest_proto\<rparr>],
     storage = [(''com.t.x'', \<lparr>iconUri = None, installedAt = 10, mainJs = ''x1.js''\<rparr>)]\<rparr>"

section \<open>Media Control Bridge: the provider\<close>

text \<open>
  An extension's callback is known to the host only by its identity. Times are in
  seconds; JavaScript numbers are taken as reals (NaN, infinities and rounding are
  outside the model).
\<close>

type_synonym callback = nat

record playback =
  isPlaying :: bool
  duration :: real
  position :: real

record MusicNotificationInfo = playback +
  title :: string
  artist :: string
  artwork :: "string option"
  album :: "string option"

record MusicNotificationHandlers =
  onPlay :: "callback option"
  onPause :: "callback option"
  onNext :: "callback option"
  onPrev :: "callback option"
  onSeek :: "callback option"
  onStop :: "callback option"

text \<open>\<^verbatim>\<open>VideoPlayerOptions\<close>; its optional \<^verbatim>\<open>title\<close> is the field \<open>videoTitle\<close> here.\<close>

record VideoPlayerOptions =
  uri :: string
  videoTitle :: "string option"
  startPosition :: "real option"
  loop :: "bool option"
  headers :: "(string \<times> string) list option"
  onEnd :: "callback option"
  onClose :: "callback option"
  renderControls :: "callback option"

text \<open>
  The browser's \<^verbatim>\<open>navigator.mediaSession\<close>: its metadata (title, artist, album, artwork
  sources), its playback state, the handler registered for each action (the callback it
  relays to) and its position state (duration, rate, position).
\<close>

record mediaSession =
  metadata :: "(string \<times> string \<times> string \<times> string list) option"
  playbackState :: string
  actionHandlers :: "string \<Rightarrow> callback option"
  positionState :: "(real \<times> real \<times> real) option"

datatype os = Web | Native

text \<open>
  The provider's React state (\<open>notifInfo\<close>, \<open>videoOptions\<close>), its ref (\<open>handlersRef\<close>) and
  the platform around it: \<open>Platform.OS\<close>, the media session (\<open>None\<close> when the navigator has
  none) and, on native, the notification's track (title, artist, album, artwork,
  duration) when the track player is available.
\<close>

record media =
  notifInfo :: "MusicNotificationInfo option"
  handlersRef :: MusicNotificationHandlers
  videoOptions :: "VideoPlayerOptions option"
  platformOS :: os
  session :: "mediaSession option"
  trackPlayer :: bool
  track :: "(string \<times> string \<times> string \<times> string \<times> real) option"

text \<open>\<^verbatim>\<open>if (fn) ms.setActionHandler(action, ...)\<close>: registers only a handler that is given.\<close>

definition setActionHandlerIf :: "string \<Rightarrow> callback option \<Rightarrow> mediaSession \<Rightarrow> mediaSession" where
  "setActionHandlerIf action fn ms =
    (case fn of
       None \<Rightarrow> ms
     | Some f \<Rightarrow> ms\<lparr>actionHandlers := (actionHandlers ms)(action := Some f)\<rparr>)"

text \<open>
  \<^verbatim>\<open>ms.setPositionState\<close> inside \<^verbatim>\<open>try/catch\<close>: the browser rejects a negative
  duration and a position outside the duration, and the state is then left as it was.
\<close>

definition setPositionState :: "real \<Rightarrow> real \<Rightarrow> mediaSession \<Rightarrow> mediaSession" where
  "setPositionState d p ms =
    (if 0 \<le> d \<and> 0 \<le> p \<and> p \<le> d then ms\<lparr>positionState := Some (d, 1, p)\<rparr> else ms)"

definition setupWebMediaSession ::
  "MusicNotificationInfo \<Rightarrow> MusicNotificationHandlers \<Rightarrow> mediaSession option \<Rightarrow> mediaSession option" where
  "setupWebMediaSession info h nav =
    (case nav of
       None \<Rightarrow> None
     | Some ms0 \<Rightarrow>
        (let ms1 = ms0\<lparr>metadata := Some (title info, artist info,
                          (case album info of None \<Rightarrow> [] | Some a \<Rightarrow> a),
                          (case artwork info of None \<Rightarrow> [] | Some a \<Rightarrow> if a = [] then [] else [a])),
                        playbackState := (if isPlaying info then ''playing'' else ''paused'')\<rparr>;
             ms2 = setActionHandlerIf ''play'' (onPlay h) ms1;
             ms3 = setActionHandlerIf ''pause'' (onPause h) ms2;
             ms4 = setActionHandlerIf ''nexttrack'' (onNext h) ms3;
             ms5 = setActionHandlerIf ''previoustrack'' (onPrev h) ms4;
             ms6 = setActionHandlerIf ''seekto'' (onSeek h) ms5
         in Some (setPositionState (duration info) (min (position info) (duration info)) ms6)))"

definition clearWebMediaSession :: "mediaSession option \<Rightarrow> mediaSession option" where
  "clearWebMediaSession nav =
    (case nav of
       None \<Rightarrow> None
     | Some ms \<Rightarrow>
        Some (ms\<lparr>metadata := None, playbackState := ''none'',
                 actionHandlers := (\<lambda>a. if a \<in> set [''play'', ''pause'', ''nexttrack'',
                                                      ''previoustrack'', ''seekto'']
                                         then None else actionHandlers ms a)\<rparr>))"

text \<open>
  \<^verbatim>\<open>setupNativeMediaNotification\<close> never reads its handlers; it puts the track's metadata
  into the player's queue when the track player can be loaded.
\<close>

definition setupNativeMediaNotification ::
  "MusicNotificationInfo \<Rightarrow> MusicNotificationHandlers \<Rightarrow> media \<Rightarrow> media" where
  "setupNativeMediaNotification info h s =
    (if trackPlayer s then
       s\<lparr>track := Some (title info, artist info,
                        (case album info of None \<Rightarrow> [] | Some a \<Rightarrow> a),
                        (case artwork info of None \<Rightarrow> [] | Some a \<Rightarrow> a), duration info)\<rparr>
     else s)"

definition clearNativeMediaNotification :: "media \<Rightarrow> media" where
  "clearNativeMediaNotification s = (if trackPlayer s then s\<lparr>track := None\<rparr> else s)"

definition synchronize :: "MusicNotificationInfo \<Rightarrow> MusicNotificationHandlers \<Rightarrow> media \<Rightarrow> media" where
  "synchronize info h s =
    (if platformOS s = Web then s\<lparr>session := setupWebMediaSession info h (session s)\<rparr>
     else setupNativeMediaNotification info h s)"

text \<open>
  \<^verbatim>\<open>musicUpdate\<close> sets the state, and the effect on \<^verbatim>\<open>[notifInfo]\<close> then synchronizes the
  platform with the handlers held in the ref (each call is taken to pass a new object, so
  that the effect runs).
\<close>

definition musicUpdate :: "MusicNotificationInfo \<Rightarrow> media \<Rightarrow> media" where
  "musicUpdate i s = synchronize i (handlersRef s) (s\<lparr>notifInfo := Some i\<rparr>)"

definition musicSetHandlers :: "MusicNotificationHandlers \<Rightarrow> media \<Rightarrow> media" where
  "musicSetHandlers h s =
    (let s1 = s\<lparr>handlersRef := h\<rparr> in
     case notifInfo s1 of
       None \<Rightarrow> s1
     | Some info \<Rightarrow> synchronize info h s1)"

definition musicClear :: "media \<Rightarrow> media" where
  "musicClear s =
    (let s1 = s\<lparr>notifInfo := None\<rparr> in
     if platformOS s1 = Web then s1\<lparr>session := clearWebMediaSession (session s1)\<rparr>
     else clearNativeMediaNotification s1)"

definition videoOpen :: "VideoPlayerOptions \<Rightarrow> media \<Rightarrow> media" where
  "videoOpen opts s = s\<lparr>videoOptions := Some opts\<rparr>"

definition videoClose :: "media \<Rightarrow> media" where
  "videoClose s = s\<lparr>videoOptions := None\<rparr>"

definition isOpen :: "media \<Rightarrow> bool" where
  "isOpen s = (videoOptions s \<noteq> None)"

text \<open>The players the provider renders: \<^verbatim>\<open>{videoOptions && <LhubVideoPlayer ... />}\<close>.\<close>

definition live_sessions :: "media \<Rightarrow> VideoPlayerOptions list" where
  "live_sessions s = (case videoOptions s of None \<Rightarrow> [] | Some opts \<Rightarrow> [opts])"

text \<open>
  A press of a platform button: the media session calls the handler registered for the
  action, which calls the extension's callback; \<open>None\<close> when nothing is called.
\<close>

definition press :: "string \<Rightarrow> media \<Rightarrow> callback option" where
  "press action s = (case session s of None \<Rightarrow> None | Some ms \<Rightarrow> actionHandlers ms action)"

text \<open>A provider as it mounts, in a browser with a media session, and on a device.\<close>

definition no_handlers :: MusicNotificationHandlers where
  "no_handlers = \<lparr>onPlay = None, onPause = None, onNext = None, onPrev = None,
                   onSeek = None, onStop = None\<rparr>"

definition fresh_session :: mediaSession where
  "fresh_session = \<lparr>metadata = None, playbackState = ''none'', actionHandlers = (\<lambda>a. None),
                     positionState = None\<rparr>"

definition web_provider :: media where
  "web_provider = \<lparr>notifInfo = None, handlersRef = no_handlers, videoOptions = None,
                    platformOS = Web, session = Some fresh_session, trackPlayer = False,
                    track = None\<rparr>"

definition native_provider :: media where
  "native_provider = \<lparr>notifInfo = None, handlersRef = no_handlers, videoOptions = None,
                       platformOS = Native, session = None, trackPlayer = True, track = None\<rparr>"

definition song :: MusicNotificationInfo where
  "song = \<lparr>isPlaying = True, duration = 240, position = 30, title = ''Song Name'',
            artist = ''Artist'', artwork = None, album = None\<rparr>"

definition movie_a :: VideoPlayerOptions where
  "movie_a = \<lparr>uri = ''https://cdn.example/a.mp4'', videoTitle = Some ''A'', startPosition = None,
               loop = None, headers = None, onEnd = None, onClose = None,
               renderControls = None\<rparr>"

definition movie_b :: VideoPlayerOptions where
  "movie_b = \<lparr>uri = ''https://cdn.example/b.m3u8'', videoTitle = Some ''B'',
               startPosition = Some 12, loop = Some False, headers = None, onEnd = None,
               onClose = None, renderControls = None\<rparr>"

section \<open>Media Control Bridge: the video engine's control surface\<close>

text \<open>
  The state of \<^verbatim>\<open>LhubVideoPlayer\<close> that its \<^verbatim>\<open>api\<close> reads: the live playback values, and
  whether \<^verbatim>\<open>videoRef.current\<close> is set (the engine's component is mounted). A call on the
  engine goes through \<^verbatim>\<open>videoRef.current?.\<close>, so nothing is issued while it is not. The
  live values are written by the engine's status callback, which is not modelled.
\<close>

record video = playback +
  buffered :: real
  isBuffering :: bool
  isEnded :: bool
  videoRef :: bool

datatype command = PlayAsync | PauseAsync | ReplayAsync | SetPositionAsync real

definition issue :: "video \<Rightarrow> command \<Rightarrow> command list" where
  "issue v c = (if videoRef v then [c] else [])"

text \<open>Each control returns the engine commands it issues and the state it leaves.\<close>

definition play :: "video \<Rightarrow> command list \<times> video" where
  "play v = (issue v PlayAsync, v)"

definition pause :: "video \<Rightarrow> command list \<times> video" where
  "pause v = (issue v PauseAsync, v)"

definition togglePlay :: "video \<Rightarrow> command list \<times> video" where
  "togglePlay v =
    (if isEnded v then (issue v ReplayAsync, v\<lparr>isEnded := False\<rparr>)
     else if isPlaying v then (issue v PauseAsync, v)
     else (issue v PlayAsync, v))"

definition seek :: "real \<Rightarrow> video \<Rightarrow> command list \<times> video" where
  "seek s v = (issue v (SetPositionAsync (s * 1000)), v)"

definition skip :: "real \<Rightarrow> video \<Rightarrow> command list \<times> video" where
  "skip s v =
    (let t = max 0 (min (duration v) (position v + s))
     in (issue v (SetPositionAsync (t * 1000)), v))"

text \<open>The state a player starts in (\<^verbatim>\<open>useState\<close> initial values).\<close>

definition initial_video :: video where
  "initial_video = \<lparr>isPlaying = False, duration = 0, position = 0, buffered = 0,
                      isBuffering = True, isEnded = False, videoRef = False\<rparr>"

section \<open>Capability Registry: the media handles of \<^verbatim>\<open>buildAPI\<close>\<close>

text \<open>
  The process-wide slot \<^verbatim>\<open>_globalMediaPlayerRef\<close>: null until a provider's effect has run,
  then the context value, which is the context's default (every function a no-op) when no
  \<^verbatim>\<open>MediaPlayerProvider\<close> is above, and the provider's own otherwise. Every handle reads the
  slot when it is called, through \<^verbatim>\<open>?.\<close>.
\<close>

datatype slot = Unset | DefaultValue | ProviderValue

record world =
  globalMediaPlayerRef :: slot
  provider :: media

definition setGlobalMediaPlayer :: "slot \<Rightarrow> world \<Rightarrow> world" where
  "setGlobalMediaPlayer mp w = w\<lparr>globalMediaPlayerRef := mp\<rparr>"

definition through :: "(media \<Rightarrow> media) \<Rightarrow> world \<Rightarrow> world" where
  "through f w =
    (case globalMediaPlayerRef w of
       Unset \<Rightarrow> w
     | DefaultValue \<Rightarrow> w
     | ProviderValue \<Rightarrow> w\<lparr>provider := f (provider w)\<rparr>)"

definition musicPlayer_update :: "MusicNotificationInfo \<Rightarrow> world \<Rightarrow> world" where
  "musicPlayer_update info w = through (musicUpdate info) w"

definition musicPlayer_setHandlers :: "MusicNotificationHandlers \<Rightarrow> world \<Rightarrow> world" where
  "musicPlayer_setHandlers handlers w = through (musicSetHandlers handlers) w"

definition musicPlayer_clear :: "world \<Rightarrow> world" where
  "musicPlayer_clear w = through musicClear w"

definition musicPlayer_getCurrent :: "world \<Rightarrow> MusicNotificationInfo option" where
  "musicPlayer_getCurrent w =
    (case globalMediaPlayerRef w of
       Unset \<Rightarrow> None
     | DefaultValue \<Rightarrow> None
     | ProviderValue \<Rightarrow> notifInfo (provider w))"

definition videoPlayer_open :: "VideoPlayerOptions \<Rightarrow> world \<Rightarrow> world" where
  "videoPlayer_open options w = through (videoOpen options) w"

definition videoPlayer_close :: "world \<Rightarrow> world" where
  "videoPlayer_close w = through videoClose w"

definition videoPlayer_isOpen :: "world \<Rightarrow> bool" where
  "videoPlayer_isOpen w =
    (case globalMediaPlayerRef w of
       Unset \<Rightarrow> False
     | DefaultValue \<Rightarrow> False
     | ProviderValue \<Rightarrow> isOpen (provider w))"

section \<open>Navigation Stack Engine: \<^verbatim>\<open>ExtensionNavigator\<close>\<close>

record StackEntry =
  screenName :: string
  params :: jsval

definition root_entry :: StackEntry where
  "root_entry = \<lparr>screenName = ''__root__'', params = JObj 0 []\<rparr>"

text \<open>The three state updaters handed to \<^verbatim>\<open>setStack\<close>.\<close>

datatype update = Append StackEntry | DropLast | Reset

fun apply_update :: "update \<Rightarrow> StackEntry list \<Rightarrow> StackEntry list" where
  "apply_update (Append e) prev = prev @ [e]"
| "apply_update DropLast prev = butlast prev"
| "apply_update Reset prev = [root_entry]"

text \<open>
  The navigator: the React state \<open>stack\<close>; \<open>rendered\<close>, the value of \<^verbatim>\<open>stack\<close> in the render that
  built the \<^verbatim>\<open>navigation\<close> object in use; and \<open>pending\<close>, the updates handed to
  \<^verbatim>\<open>animateTransition\<close> whose midpoint callback has not run yet, oldest first. A call only
  queues its update; \<open>midpoint\<close> is the next callback running (\<^verbatim>\<open>runOnJS(onMid)\<close>), and
  \<open>render\<close> is React rendering the component again.
\<close>

record navigator =
  stack :: "StackEntry list"
  rendered :: "StackEntry list"
  pending :: "update list"

definition initial_navigator :: navigator where
  "initial_navigator = \<lparr>stack = [root_entry], rendered = [root_entry], pending = []\<rparr>"

definition push :: "string \<Rightarrow> jsval \<Rightarrow> navigator \<Rightarrow> navigator" where
  "push name ps n =
    n\<lparr>pending := pending n @
         [Append \<lparr>screenName = name, params = (if nullish ps then JObj 0 [] else ps)\<rparr>]\<rparr>"

definition pop :: "navigator \<Rightarrow> navigator" where
  "pop n = (if length (rendered n) \<le> 1 then n else n\<lparr>pending := pending n @ [DropLast]\<rparr>)"

definition popToRoot :: "navigator \<Rightarrow> navigator" where
  "popToRoot n = n\<lparr>pending := pending n @ [Reset]\<rparr>"

definition midpoint :: "navigator \<Rightarrow> navigator" where
  "midpoint n =
    (case pending n of
       [] \<Rightarrow> n
     | u # us \<Rightarrow> n\<lparr>stack := apply_update u (stack n), pending := us\<rparr>)"

definition render :: "navigator \<Rightarrow> navigator" where
  "render n = n\<lparr>rendered := stack n\<rparr>"

text \<open>\<^verbatim>\<open>current = stack[stack.length - 1]\<close>, undefined (\<open>None\<close>) on an empty stack.\<close>

definition current :: "navigator \<Rightarrow> StackEntry option" where
  "current n = (if rendered n = [] then None else Some (last (rendered n)))"

datatype event = Push string jsval | Pop | PopToRoot | Midpoint | Render

fun step :: "navigator \<Rightarrow> event \<Rightarrow> navigator" where
  "step n (Push name ps) = push name ps n"
| "step n Pop = pop n"
| "step n PopToRoot = popToRoot n"
| "step n Midpoint = midpoint n"
| "step n Render = render n"

definition run_events :: "event list \<Rightarrow> navigator \<Rightarrow> navigator" where
  "run_events es n = foldl step n es"

text \<open>
  A transition taken alone: the call, then its midpoint, then the render, all before the
  next call.
\<close>

fun is_call :: "event \<Rightarrow> bool" where
  "is_call Midpoint = False"
| "is_call Render = False"
| "is_call e = True"

definition transition :: "navigator \<Rightarrow> event \<Rightarrow> navigator" where
  "transition n e = render (midpoint (step n e))"

text \<open>
  A navigator at rest: a non-empty stack that starts with the root entry, rendered, with
  no update pending.
\<close>

definition settled :: "navigator \<Rightarrow> bool" where
  "settled n = (stack n \<noteq> [] \<and> hd (stack n) = root_entry \<and> rendered n = stack n \<and> pending n = [])"

section \<open>Properties of the Extension Loader\<close>

lemma names_field_mid: \<open>names_field (a @ ''"'' @ f @ ''"'' @ b) f\<close>
  unfolding names_field_def by (metis append.assoc sublist_appendI)

lemma names_field_end: \<open>names_field (a @ ''"'' @ f @ ''"'') f\<close>
  using names_field_mid[of a f "[]"] by simp

lemma check_tab_ok_iff:
  "\<not> nullish tab \<Longrightarrow> (check_tab E tab = Inr ()) = (tab_violations tab = [])"
  by (auto simp: check_tab_def tab_violations_def)

lemma check_tab_names:
  assumes "\<not> nullish tab" "tab_violations tab \<noteq> []"
  shows "\<exists>msg. check_tab E tab = Inl (Error msg) \<and> names_field msg (hd (tab_violations tab))"
proof -
  define t where "t = js_string E (get_prop tab ''id'')"
  consider (noid) "\<not> truthy (get_prop tab ''id'')"
    | (nolabel) "truthy (get_prop tab ''id'')" "\<not> truthy (get_prop tab ''label'')"
    | (noicon) "truthy (get_prop tab ''id'')" "truthy (get_prop tab ''label'')"
        "\<not> truthy (get_prop tab ''icon'')"
    | (nocomp) "truthy (get_prop tab ''id'')" "truthy (get_prop tab ''label'')"
        "truthy (get_prop tab ''icon'')" "typeof (get_prop tab ''component'') \<noteq> ''function''"
    | (noscreens) "truthy (get_prop tab ''id'')" "truthy (get_prop tab ''label'')"
        "truthy (get_prop tab ''icon'')" "typeof (get_prop tab ''component'') = ''function''"
        "truthy (get_prop tab ''screens'')" "typeof (get_prop tab ''screens'') \<noteq> ''object''"
    using assms(2) by (auto simp: tab_violations_def split: if_splits)
  then show ?thesis
  proof cases
    case noid
    have "names_field (''Tab missing '' @ [CHR 0x22] @ ''id'' @ [CHR 0x22]) ''id''"
      by (rule names_field_end)
    with noid assms(1) show ?thesis
      by (simp add: check_tab_def tab_violations_def)
  next
    case nolabel
    have "names_field ((''Tab '' @ [CHR 0x22] @ t @ [CHR 0x22] @ '' missing '') @ [CHR 0x22] @ ''label'' @ [CHR 0x22]) ''label''"
      by (rule names_field_end)
    with nolabel assms(1) show ?thesis
      by (simp add: check_tab_def tab_violations_def t_def)
  next
    case noicon
    have "names_field ((''Tab '' @ [CHR 0x22] @ t @ [CHR 0x22] @ '' missing '') @ [CHR 0x22] @ ''icon'' @ [CHR 0x22]) ''icon''"
      by (rule names_field_end)
    with noicon assms(1) show ?thesis
      by (simp add: check_tab_def tab_violations_def t_def)
  next
    case nocomp
    have "names_field ((''Tab '' @ [CHR 0x22] @ t @ [CHR 0x22] @ '': '') @ [CHR 0x22] @ ''component'' @ [CHR 0x22]
        @ ('' must be a function (got '' @ typeof (get_prop tab ''component'') @ '')'')) ''component''"
      by (rule names_field_mid)
    with nocomp assms(1) show ?thesis
      by (simp add: check_tab_def tab_violations_def t_def)
  next
    case noscreens
    have "names_field ((''Tab '' @ [CHR 0x22] @ t @ [CHR 0x22] @ '': '') @ [CHR 0x22] @ ''screens'' @ [CHR 0x22]
        @ '' must be an object'') ''screens''"
      by (rule names_field_mid)
    with noscreens assms(1) show ?thesis
      by (simp add: check_tab_def tab_violations_def t_def)
  qed
qed

lemma nullish_violates: "nullish t \<Longrightarrow> tab_violations t \<noteq> []"
  by (cases t) (simp_all add: tab_violations_def)

lemma check_tabs_names:
  assumes "find (\<lambda>t. tab_violations t \<noteq> []) tabs = Some t" "\<not> nullish t"
  shows "\<exists>msg. check_tabs E tabs = Inl (Error msg) \<and>
           names_field msg (hd (concat (map tab_violations tabs)))"
  using assms
proof (induction tabs)
  case Nil
  then show ?case by simp
next
  case (Cons tab tabs)
  show ?case
  proof (cases "tab_violations tab = []")
    case True
    then have "\<not> nullish tab" using nullish_violates by blast
    with True have "check_tab E tab = Inr ()" by (simp add: check_tab_ok_iff)
    with True Cons show ?thesis by simp
  next
    case False
    with Cons.prems have "t = tab" by simp
    with False Cons.prems check_tab_names[of tab E] show ?thesis by auto
  qed
qed

lemma check_tabs_null:
  assumes "find (\<lambda>t. tab_violations t \<noteq> []) tabs = Some t" "nullish t"
  shows "check_tabs E tabs = Inl (TypeError t ''id'')"
  using assms
proof (induction tabs)
  case Nil
  then show ?case by simp
next
  case (Cons tab tabs)
  show ?case
  proof (cases "tab_violations tab = []")
    case True
    then have "\<not> nullish tab" using nullish_violates by blast
    with True have "check_tab E tab = Inr ()" by (simp add: check_tab_ok_iff)
    with True Cons show ?thesis by simp
  next
    case False
    with Cons.prems have "t = tab" by simp
    with Cons.prems show ?thesis by (simp add: check_tab_def)
  qed
qed

lemma validate_names:
  assumes "manifest_violations exports \<noteq> []"
      and "\<not> null_tab_first exports"
  shows "\<exists>msg. validate E exports = Inl (Error msg) \<and>
           (if truthy exports \<and> typeof exports = ''object''
            then names_field msg (hd (manifest_violations exports))
            else msg = ''main.js must assign module.exports = { id, name, tabs }'')"
proof (cases "truthy exports \<and> typeof exports = ''object''")
  case False
  then show ?thesis by (auto simp: validate_def)
next
  case obj: True
  consider (noid) "\<not> truthy (get_prop exports ''id'')"
    | (noname) "truthy (get_prop exports ''id'')" "\<not> truthy (get_prop exports ''name'')"
    | (notabs) "truthy (get_prop exports ''id'')" "truthy (get_prop exports ''name'')"
        "tab_entries exports = []"
    | (tabs) "truthy (get_prop exports ''id'')" "truthy (get_prop exports ''name'')"
        "tab_entries exports \<noteq> []"
    by blast
  then show ?thesis
  proof cases
    case noid
    have "names_field (''Missing field: '' @ [CHR 0x22] @ ''id'' @ [CHR 0x22]) ''id''"
      by (rule names_field_end)
    with noid obj show ?thesis by (simp add: validate_def manifest_violations_def)
  next
    case noname
    have "names_field (''Missing field: '' @ [CHR 0x22] @ ''name'' @ [CHR 0x22]) ''name''"
      by (rule names_field_end)
    with noname obj show ?thesis by (simp add: validate_def manifest_violations_def)
  next
    case notabs
    have "names_field (''Missing or empty '' @ [CHR 0x22] @ ''tabs'' @ [CHR 0x22] @ '' array'') ''tabs''"
      by (rule names_field_mid)
    with notabs obj show ?thesis
      by (auto simp: validate_def manifest_violations_def tab_entries_def split: jsval.splits)
  next
    case tabs
    then obtain r ts where ts: "get_prop exports ''tabs'' = JArr r ts" "ts \<noteq> []"
      by (auto simp: tab_entries_def split: jsval.splits)
    then have te: "tab_entries exports = ts" by (simp add: tab_entries_def)
    with tabs have mv: "manifest_violations exports = concat (map tab_violations ts)"
      by (simp add: manifest_violations_def)
    with assms(1) obtain t where f: "find (\<lambda>t. tab_violations t \<noteq> []) ts = Some t"
      by (cases "find (\<lambda>t. tab_violations t \<noteq> []) ts") (auto simp: find_None_iff)
    with assms(2) obj tabs te have "\<not> nullish t" by (simp add: null_tab_first_def)
    from check_tabs_names[OF f this, of E]
    obtain msg where "check_tabs E ts = Inl (Error msg)"
      "names_field msg (hd (concat (map tab_violations ts)))" by auto
    with tabs obj ts mv show ?thesis by (simp add: validate_def)
  qed
qed

lemma install_fails:
  assumes "jszip E" "file_bytes f = Some b" "loadAsync E b = Inr z"
      and "zip_file z ''main.js'' = Some mf" "evalMainJs E (as_string mf) = Inl e"
  shows "installFromFile E f st = (\<lparr>ok = False, error = Some (message E e)\<rparr>, st)"
  using assms
  by (simp add: installFromFile_def parseLhubWeb_def readAsArrayBuffer_def parseZipBuffer_def Let_def)

lemma failed_install_keeps_state:
  "installFromFile E f st = (r, st') \<Longrightarrow> \<not> ok r \<Longrightarrow> st' = st"
  by (auto simp: installFromFile_def Let_def split: sum.splits prod.splits)

lemma evaluation_error:
  "run E code = Inl m \<Longrightarrow> evalMainJs E code = Inl (Error (''JS error in main.js: '' @ m))"
  by (simp add: evalMainJs_def)

text \<open>
  What the Loader does with a candidate that breaks the contract. Unless the first
  violation lies in a null or undefined tab entry, it throws an \<^verbatim>\<open>Error\<close> whose message
  names, in double quotes, the first violated field (for an export that is not an object,
  the fixed text listing id, name and tabs), and \<^verbatim>\<open>installFromFile\<close> returns that message
  with the state unchanged.
\<close>

lemma missing_field_named:
  assumes "jszip E" "file_bytes f = Some b" "loadAsync E b = Inr z"
      and "zip_file z ''main.js'' = Some mf"
      and "run E (as_string mf) = Inr exports"
      and "manifest_violations exports \<noteq> []"
      and "\<not> null_tab_first exports"
  shows "\<exists>msg. evalMainJs E (as_string mf) = Inl (Error msg) \<and>
           (if truthy exports \<and> typeof exports = ''object''
            then names_field msg (hd (manifest_violations exports))
            else msg = ''main.js must assign module.exports = { id, name, tabs }'') \<and>
           installFromFile E f st = (\<lparr>ok = False, error = Some msg\<rparr>, st)"
proof -
  from validate_names[OF assms(6,7), of E] obtain msg where
    m: "validate E exports = Inl (Error msg)"
       "if truthy exports \<and> typeof exports = ''object''
            then names_field msg (hd (manifest_violations exports))
            else msg = ''main.js must assign module.exports = { id, name, tabs }''" by blast
  from m(1) assms(5) have ev: "evalMainJs E (as_string mf) = Inl (Error msg)"
    by (simp add: evalMainJs_def)
  from install_fails[OF assms(1-4) ev] have "installFromFile E f st = (\<lparr>ok = False, error = Some msg\<rparr>, st)"
    by simp
  with ev m(2) show ?thesis by blast
qed

lemma missing_name_named:
  \<open>manifest_violations manifest_noname = [''name''] \<and>
   evalMainJs demo_env ''noname.js'' = Inl (Error ''Missing field: "name"'') \<and>
   names_field ''Missing field: "name"'' ''name'' \<and>
   installFromFile demo_env (File ''z.lhub'' (Some [3])) \<lparr>extensions = [], storage = []\<rparr> =
     (\<lparr>ok = False, error = Some ''Missing field: "name"''\<rparr>, \<lparr>extensions = [], storage = []\<rparr>)\<close>
proof -
  let ?mf = "\<lparr>as_string = ''noname.js'', as_base64 = ''bm8=''\<rparr>"
  have v: "manifest_violations manifest_noname = [''name'']"
    by (simp add: manifest_violations_def tab_entries_def tab_violations_def demo_defs)
  have h1: "jszip demo_env" by (simp add: demo_defs)
  have h2: "file_bytes (File ''z.lhub'' (Some [3])) = Some [3]" by simp
  have h3: "loadAsync demo_env [3] = Inr [(''main.js'', ZFile ?mf)]"
    by (simp add: demo_defs)
  have h4: "zip_file [(''main.js'', ZFile ?mf)] ''main.js'' = Some ?mf"
    by (simp add: zip_file_def)
  have h5: "run demo_env (as_string ?mf) = Inr manifest_noname"
    by (simp add: demo_env_def demo_run_def)
  have h6: "manifest_violations manifest_noname \<noteq> []" using v by simp
  have h7: "\<not> null_tab_first manifest_noname"
    by (simp add: null_tab_first_def demo_defs)
  have obj: "truthy manifest_noname \<and> typeof manifest_noname = ''object''"
    by (simp add: demo_defs)
  from missing_field_named[OF h1 h2 h3 h4 h5 h6 h7, of "\<lparr>extensions = [], storage = []\<rparr>"]
  obtain msg where m: "evalMainJs demo_env ''noname.js'' = Inl (Error msg)"
    "names_field msg ''name''"
    "installFromFile demo_env (File ''z.lhub'' (Some [3])) \<lparr>extensions = [], storage = []\<rparr> =
       (\<lparr>ok = False, error = Some msg\<rparr>, \<lparr>extensions = [], storage = []\<rparr>)"
    using v obj by auto
  have \<open>evalMainJs demo_env ''noname.js'' = Inl (Error ''Missing field: "name"'')\<close>
    by (simp add: evalMainJs_def validate_def demo_defs)
  with m v show ?thesis by simp
qed

text \<open>
  When the first violation does lie in a null or undefined tab entry, the read of
  \<^verbatim>\<open>tab.id\<close> throws the engine's \<^verbatim>\<open>TypeError\<close> before any check of the Loader's own.
\<close>

lemma nullish_tab_throws:
  assumes "run E code = Inr exports" "null_tab_first exports"
  shows "\<exists>t. nullish t \<and> evalMainJs E code = Inl (TypeError t ''id'')"
proof -
  from assms(2) obtain t where
    f: "find (\<lambda>t. tab_violations t \<noteq> []) (tab_entries exports) = Some t" and n: "nullish t"
    by (auto simp: null_tab_first_def split: option.splits)
  from f have "tab_entries exports \<noteq> []" by auto
  then obtain r where tabs: "get_prop exports ''tabs'' = JArr r (tab_entries exports)"
    by (auto simp: tab_entries_def split: jsval.splits)
  from check_tabs_null[OF f n, of E] assms tabs \<open>tab_entries exports \<noteq> []\<close>
  have "evalMainJs E code = Inl (TypeError t ''id'')"
    by (simp add: evalMainJs_def validate_def null_tab_first_def)
  with n show ?thesis by blast
qed

text \<open>
  C1. The manifest \<^verbatim>\<open>{ id: 'a', name: 'N', tabs: [null] }\<close> lacks its tab's id, label, icon
  and component. The Loader does not fail with an \<^verbatim>\<open>Error\<close> that names one of them: the
  read of \<^verbatim>\<open>tab.id\<close> on the null entry throws the engine's \<^verbatim>\<open>TypeError\<close>, and that error's
  message, the engine's own text, is what \<^verbatim>\<open>installFromFile\<close> returns. The install fails
  and leaves the installed collection and the durable store as they were.
\<close>

theorem null_tab_raises_type_error:
  "manifest_violations manifest_nulltab = [''id'', ''label'', ''icon'', ''component''] \<and>
   evalMainJs demo_env ''nulltab.js'' = Inl (TypeError JNull ''id'') \<and>
   installFromFile demo_env (File ''n.lhub'' (Some [6])) \<lparr>extensions = [], storage = []\<rparr> =
     (\<lparr>ok = False, error = Some (typeErrorMessage demo_env JNull ''id'')\<rparr>,
      \<lparr>extensions = [], storage = []\<rparr>)"
proof -
  have v: "manifest_violations manifest_nulltab = [''id'', ''label'', ''icon'', ''component'']"
    by (simp add: manifest_violations_def tab_entries_def tab_violations_def manifest_nulltab_def)
  have e: "evalMainJs demo_env ''nulltab.js'' = Inl (TypeError JNull ''id'')"
    by (simp add: evalMainJs_def validate_def check_tab_def demo_env_def demo_run_def
        manifest_nulltab_def)
  have "installFromFile demo_env (File ''n.lhub'' (Some [6])) \<lparr>extensions = [], storage = []\<rparr> =
     (\<lparr>ok = False, error = Some (message demo_env (TypeError JNull ''id''))\<rparr>,
      \<lparr>extensions = [], storage = []\<rparr>)"
  proof (rule install_fails)
    show "jszip demo_env" by (simp add: demo_env_def)
    show "file_bytes (File ''n.lhub'' (Some [6])) = Some [6]" by simp
    show "loadAsync demo_env [6] =
        Inr [(''main.js'', ZFile \<lparr>as_string = ''nulltab.js'', as_base64 = ''bnVsbA==''\<rparr>)]"
      by (simp add: demo_env_def demo_zip_def)
    show "zip_file [(''main.js'', ZFile \<lparr>as_string = ''nulltab.js'', as_base64 = ''bnVsbA==''\<rparr>)]
        ''main.js'' = Some \<lparr>as_string = ''nulltab.js'', as_base64 = ''bnVsbA==''\<rparr>"
      by (simp add: zip_file_def)
    show "evalMainJs demo_env (as_string \<lparr>as_string = ''nulltab.js'', as_base64 = ''bnVsbA==''\<rparr>) =
        Inl (TypeError JNull ''id'')" using e by simp
  qed
  with v e show ?thesis by simp
qed

section \<open>Properties of rehydration\<close>

lemma rehydrate_loop_eq:
  "rehydrate_loop E acc stored = acc @ loaded_records E stored"
proof (induction stored arbitrary: acc)
  case Nil
  then show ?case by (simp add: loaded_records_def)
next
  case (Cons a stored)
  obtain ident p where a: "a = (ident, p)" by (cases a)
  show ?case
  proof (cases "evalMainJs E (mainJs p)")
    case (Inl e)
    with Cons a show ?thesis by (simp add: loaded_records_def)
  next
    case (Inr m)
    with Cons a show ?thesis by (simp add: loaded_records_def)
  qed
qed

lemma rehydrateAll_extensions:
  "extensions (rehydrateAll E st) =
     (if loaded_records E (storageLoad E (storage st)) = [] then extensions st
      else loaded_records E (storageLoad E (storage st)))"
  by (simp add: rehydrateAll_def Let_def rehydrate_loop_eq loaded_records_def)

lemma rehydrateAll_storage: "storage (rehydrateAll E st) = storage st"
  by (simp add: rehydrateAll_def Let_def)

lemma eval_x1: "evalMainJs demo_env ''x1.js'' = Inr manifest_x"
  by (simp add: evalMainJs_def validate_def check_tab_def demo_defs)

lemma eval_x2: "evalMainJs demo_env ''x2.js'' = Inr manifest_x2"
  by (simp add: evalMainJs_def validate_def check_tab_def demo_defs)

lemma eval_y: "evalMainJs demo_env ''y.js'' = Inr manifest_y"
  by (simp add: evalMainJs_def validate_def check_tab_def demo_defs)

lemma eval_bad: "evalMainJs demo_env ''}{'' = Inl (Error ''JS error in main.js: Unexpected token'')"
  by (simp add: evalMainJs_def demo_defs)

text \<open>
  C2. Rehydration is isolated per record. Started from the empty collection,
  \<^verbatim>\<open>rehydrateAll\<close> leaves exactly the records whose source loads, in the persisted map's
  order; a record whose source fails is caught inside the loop and skipped, so no error
  leaves the operation (its result is a state, never an error). With three records of
  which the second fails to load, the first and the third are installed.
\<close>

theorem rehydration_isolated:
  "extensions (rehydrateAll E \<lparr>extensions = [], storage = stored\<rparr>) =
     loaded_records E (storageLoad E stored) \<and>
   (getItem_ok E \<and> evalMainJs E (mainJs p1) = Inr m1 \<and> evalMainJs E (mainJs p2) = Inl e \<and>
    evalMainJs E (mainJs p3) = Inr m3 \<longrightarrow>
    extensions (rehydrateAll E \<lparr>extensions = [], storage = [(i1, p1), (i2, p2), (i3, p3)]\<rparr>) =
      [\<lparr>iconUri = iconUri p1, installedAt = installedAt p1, manifest = m1\<rparr>,
       \<lparr>iconUri = iconUri p3, installedAt = installedAt p3, manifest = m3\<rparr>])"
  by (simp add: rehydrateAll_extensions loaded_records_def storageLoad_def)

theorem rehydration_isolated_witness:
  "extensions (rehydrateAll demo_env \<lparr>extensions = [], storage = three_records\<rparr>) =
     [\<lparr>iconUri = None, installedAt = 10, manifest = manifest_x\<rparr>,
      \<lparr>iconUri = Some ''data:image/png;base64,cG5n'', installedAt = 30, manifest = manifest_y\<rparr>]"
proof -
  have g: "getItem_ok demo_env" by (simp add: demo_env_def)
  from rehydration_isolated[of demo_env three_records
      "\<lparr>iconUri = None, installedAt = 10, mainJs = ''x1.js''\<rparr>" manifest_x
      "\<lparr>iconUri = None, installedAt = 20, mainJs = ''}{''\<rparr>"
      "Error ''JS error in main.js: Unexpected token''"
      "\<lparr>iconUri = Some ''data:image/png;base64,cG5n'', installedAt = 30, mainJs = ''y.js''\<rparr>"
      manifest_y "''com.t.x''" "''com.t.bad''" "''com.t.y''", THEN conjunct2]
  show ?thesis using g eval_x1 eval_bad eval_y by (simp add: three_records_def)
qed

section \<open>Properties of the Archive Reader\<close>

lemma in_set_join: "n \<in> set names \<Longrightarrow> sublist n (join sep names)"
proof (induction sep names rule: join.induct)
  case (1 sep)
  then show ?case by simp
next
  case (2 sep x)
  then show ?case by simp
next
  case (3 sep x y ys)
  show ?case
  proof (cases "n = x")
    case True
    then show ?thesis by simp
  next
    case False
    with 3 have "sublist n (join sep (y # ys))" by simp
    then have "sublist n ((x @ sep) @ join sep (y # ys))"
      by (metis sublist_append)
    then show ?thesis by simp
  qed
qed

text \<open>
  C7. Entry point and icon of an archive that the parser accepted. If it has no file
  member \<^verbatim>\<open>main.js\<close>, reading throws an \<^verbatim>\<open>Error\<close> whose message lists every member name
  found, joined by a comma and a space. If \<^verbatim>\<open>main.js\<close> is there and \<^verbatim>\<open>icon.png\<close> is not,
  the missing icon raises nothing: the result is the Loader's, and when the Loader
  accepts the source it carries the manifest, the source text and \<^verbatim>\<open>iconUri = null\<close>.
\<close>

theorem archive_entry_point_and_icon:
  assumes "loadAsync E buffer = Inr z"
  shows "(zip_file z ''main.js'' = None \<longrightarrow>
           parseZipBuffer E buffer =
             Inl (Error (''main.js not found. Found: '' @ join '', '' (map fst z))) \<and>
           (\<forall>n \<in> set (map fst z).
              sublist n (''main.js not found. Found: '' @ join '', '' (map fst z)))) \<and>
         (zip_file z ''main.js'' = Some mainFile \<and> zip_file z ''icon.png'' = None \<longrightarrow>
           parseZipBuffer E buffer =
             (case evalMainJs E (as_string mainFile) of
                Inl e \<Rightarrow> Inl e
              | Inr m \<Rightarrow> Inr (m, as_string mainFile, None)))"
proof -
  have "sublist n (''main.js not found. Found: '' @ join '', '' (map fst z))"
    if "n \<in> set (map fst z)" for n
    using in_set_join[OF that, of "'', ''"] by (metis sublist_append)
  with assms show ?thesis by (auto simp: parseZipBuffer_def Let_def)
qed

theorem archive_entry_point_and_icon_witness:
  "parseZipBuffer demo_env [4] =
     Inl (Error ''main.js not found. Found: src/, src/main.js, README.md'') \<and>
   sublist ''src/main.js'' ''main.js not found. Found: src/, src/main.js, README.md'' \<and>
   parseZipBuffer demo_env [1] = Inr (manifest_x, ''x1.js'', None)"
proof -
  let ?z4 = "[(''src/'', ZDir),
            (''src/main.js'', ZFile \<lparr>as_string = ''x1.js'', as_base64 = ''eDE=''\<rparr>),
            (''README.md'', ZFile \<lparr>as_string = ''hello'', as_base64 = ''aGVsbG8=''\<rparr>)]"
  let ?f1 = "\<lparr>as_string = ''x1.js'', as_base64 = ''eDE=''\<rparr>"
  have l4: "loadAsync demo_env [4] = Inr ?z4" by (simp add: demo_env_def demo_zip_def)
  have n4: "zip_file ?z4 ''main.js'' = None" by (simp add: zip_file_def)
  have l1: "loadAsync demo_env [1] = Inr [(''main.js'', ZFile ?f1)]"
    by (simp add: demo_env_def demo_zip_def)
  have m1: "zip_file [(''main.js'', ZFile ?f1)] ''main.js'' = Some ?f1"
    "zip_file [(''main.js'', ZFile ?f1)] ''icon.png'' = None" by (simp_all add: zip_file_def)
  from archive_entry_point_and_icon[OF l4, THEN conjunct1] n4
  have a: "parseZipBuffer demo_env [4] =
     Inl (Error ''main.js not found. Found: src/, src/main.js, README.md'')"
    "sublist ''src/main.js'' ''main.js not found. Found: src/, src/main.js, README.md''"
    by simp_all
  from archive_entry_point_and_icon[OF l1, THEN conjunct2, of ?f1] m1 eval_x1
  have b: "parseZipBuffer demo_env [1] = Inr (manifest_x, ''x1.js'', None)" by simp
  from a b show ?thesis by simp
qed

section \<open>Properties of install and uninstall\<close>

lemma strict_eq_refl_right: "strict_eq a b \<Longrightarrow> strict_eq b b"
  by (cases a; cases b) auto

lemma parse_x2: "parseLhubWeb demo_env (File ''x2.lhub'' (Some [2])) =
    Inr (manifest_x2, ''x2.js'', Some ''data:image/png;base64,cG5n'')"
  using eval_x2
  by (simp add: parseLhubWeb_def readAsArrayBuffer_def parseZipBuffer_def zip_file_def Let_def
      demo_env_def demo_zip_def)

lemma parse_x1: "parseLhubWeb demo_env (File ''x1.lhub'' (Some [1])) =
    Inr (manifest_x, ''x1.js'', None)"
  using eval_x1
  by (simp add: parseLhubWeb_def readAsArrayBuffer_def parseZipBuffer_def zip_file_def Let_def
      demo_env_def demo_zip_def)

lemma eval_proto: "evalMainJs demo_env ''proto.js'' = Inr manifest_proto"
  by (simp add: evalMainJs_def validate_def check_tab_def demo_defs)

lemma parse_proto: "parseLhubWeb demo_env (File ''p.lhub'' (Some [5])) =
    Inr (manifest_proto, ''proto.js'', None)"
  using eval_proto
  by (simp add: parseLhubWeb_def readAsArrayBuffer_def parseZipBuffer_def zip_file_def Let_def
      demo_env_def demo_zip_def)

lemma map_of_insert_index:
  "map_of obj k = None \<Longrightarrow> map_of (insert_index i k v obj) k = Some v"
  by (induction obj) (auto split: option.splits if_splits)

lemma map_of_obj_set:
  assumes "k \<noteq> ''__proto__'' \<or> map_of obj k \<noteq> None"
  shows "map_of (obj_set k v obj) k = Some v"
proof (cases "map_of obj k")
  case None
  with assms show ?thesis
    by (auto simp: obj_set_def map_of_insert_index map_add_def split: option.splits)
next
  case (Some a)
  then show ?thesis by (simp add: obj_set_def update_conv')
qed

lemma obj_set_proto:
  "map_of obj ''__proto__'' = None \<Longrightarrow> obj_set ''__proto__'' v obj = obj"
  by (simp add: obj_set_def)

lemma install_ok:
  assumes "parseLhubWeb E f = Inr (m, src, icon)"
  shows "installFromFile E f st =
    (\<lparr>ok = True, error = None\<rparr>,
     \<lparr>extensions =
        filter (\<lambda>e. \<not> strict_eq (get_prop (manifest e) ''id'') (get_prop m ''id'')) (extensions st)
        @ [\<lparr>iconUri = icon, installedAt = now E, manifest = m\<rparr>],
      storage = storageSave E
        (obj_set (js_string E (get_prop m ''id''))
           \<lparr>iconUri = icon, installedAt = now E, mainJs = src\<rparr> (storageLoad E (storage st)))
        (storage st)\<rparr>)"
  using assms by (simp add: installFromFile_def Let_def)

text \<open>
  Install replaces by id. Let an archive load to manifest \<open>m\<close> while an installed extension
  has an id that is \<^verbatim>\<open>===\<close> to \<open>m\<close>'s. Then the install succeeds; afterwards the only
  installed record with that id is the new one, the records with other ids are as before,
  and the collection is no longer than it was. When the durable write succeeds and the
  key \<^verbatim>\<open>manifest.id\<close> is not \<^verbatim>\<open>__proto__\<close> (or the map that was read has it as an entry), the
  persisted map holds under that key the record with the new source text.
\<close>

lemma install_upserts:
  assumes "parseLhubWeb E f = Inr (m, src, icon)"
      and "old \<in> set (extensions st)"
      and "strict_eq (get_prop (manifest old) ''id'') (get_prop m ''id'')"
      and "installFromFile E f st = (r, st')"
  shows "ok r \<and>
    filter (\<lambda>e. strict_eq (get_prop (manifest e) ''id'') (get_prop m ''id'')) (extensions st') =
      [\<lparr>iconUri = icon, installedAt = now E, manifest = m\<rparr>] \<and>
    filter (\<lambda>e. \<not> strict_eq (get_prop (manifest e) ''id'') (get_prop m ''id'')) (extensions st') =
      filter (\<lambda>e. \<not> strict_eq (get_prop (manifest e) ''id'') (get_prop m ''id'')) (extensions st) \<and>
    length (extensions st') \<le> length (extensions st) \<and>
    (setItem_ok E \<and>
     (js_string E (get_prop m ''id'') \<noteq> ''__proto__'' \<or>
      map_of (storageLoad E (storage st)) (js_string E (get_prop m ''id'')) \<noteq> None) \<longrightarrow>
       map_of (storage st') (js_string E (get_prop m ''id'')) =
         Some \<lparr>iconUri = icon, installedAt = now E, mainJs = src\<rparr>)"
proof -
  let ?same = "\<lambda>e. strict_eq (get_prop (manifest e) ''id'') (get_prop m ''id'')"
  from install_ok[OF assms(1), of st] assms(4)
  have r: "r = \<lparr>ok = True, error = None\<rparr>"
    and ex: "extensions st' = filter (\<lambda>e. \<not> ?same e) (extensions st)
               @ [\<lparr>iconUri = icon, installedAt = now E, manifest = m\<rparr>]"
    and sto: "storage st' = storageSave E
        (obj_set (js_string E (get_prop m ''id''))
           \<lparr>iconUri = icon, installedAt = now E, mainJs = src\<rparr> (storageLoad E (storage st)))
        (storage st)"
    by auto
  have self: "strict_eq (get_prop m ''id'') (get_prop m ''id'')"
    using assms(3) by (rule strict_eq_refl_right)
  have len: "length (filter (\<lambda>e. \<not> ?same e) (extensions st)) < length (extensions st)"
    using assms(2,3) by (intro length_filter_less) auto
  have key: "map_of (storage st') (js_string E (get_prop m ''id'')) =
         Some \<lparr>iconUri = icon, installedAt = now E, mainJs = src\<rparr>"
    if "setItem_ok E" "js_string E (get_prop m ''id'') \<noteq> ''__proto__'' \<or>
      map_of (storageLoad E (storage st)) (js_string E (get_prop m ''id'')) \<noteq> None"
    using that(1) sto map_of_obj_set[OF that(2)] by (simp add: storageSave_def)
  from r have "ok r" by simp
  moreover from ex self have "filter ?same (extensions st') =
      [\<lparr>iconUri = icon, installedAt = now E, manifest = m\<rparr>]" by simp
  moreover from ex self have "filter (\<lambda>e. \<not> ?same e) (extensions st') =
      filter (\<lambda>e. \<not> ?same e) (extensions st)" by simp
  moreover from ex len have "length (extensions st') \<le> length (extensions st)" by simp
  ultimately show ?thesis using key by blast
qed

lemma install_upserts_example:
  "installFromFile demo_env (File ''x2.lhub'' (Some [2])) hub_with_x =
     (\<lparr>ok = True, error = None\<rparr>,
      \<lparr>extensions = [\<lparr>iconUri = None, installedAt = 30, manifest = manifest_y\<rparr>,
                     \<lparr>iconUri = Some ''data:image/png;base64,cG5n'', installedAt = 1700000000000,
                      manifest = manifest_x2\<rparr>],
       storage = [(''com.t.x'', \<lparr>iconUri = Some ''data:image/png;base64,cG5n'',
                                 installedAt = 1700000000000, mainJs = ''x2.js''\<rparr>),
                  (''com.t.y'', \<lparr>iconUri = None, installedAt = 30, mainJs = ''y.js''\<rparr>)]\<rparr>)"
  unfolding install_ok[OF parse_x2]
  by (simp add: hub_with_x_def storageLoad_def storageSave_def obj_set_def
      manifest_x_def manifest_x2_def manifest_y_def demo_env_def)

text \<open>
  C3. An archive whose manifest id is \<^verbatim>\<open>__proto__\<close>, installed while an extension with that
  id is installed. The install succeeds and the installed collection holds the new record
  in the old one's stead, but \<^verbatim>\<open>stored[manifest.id] = ...\<close> sets the prototype of the map
  that was read and adds no entry: the map written back has no key equal to
  \<^verbatim>\<open>manifest.id\<close>, and the new source text is not stored.
\<close>

theorem proto_id_not_persisted:
  "get_prop manifest_proto ''id'' = JStr ''__proto__'' \<and>
   installFromFile demo_env (File ''p.lhub'' (Some [5])) hub_with_proto =
     (\<lparr>ok = True, error = None\<rparr>,
      \<lparr>extensions = [\<lparr>iconUri = None, installedAt = 10, manifest = manifest_x\<rparr>,
                     \<lparr>iconUri = None, installedAt = 1700000000000, manifest = manifest_proto\<rparr>],
       storage = [(''com.t.x'', \<lparr>iconUri = None, installedAt = 10, mainJs = ''x1.js''\<rparr>)]\<rparr>) \<and>
   map_of (storage (snd (installFromFile demo_env (File ''p.lhub'' (Some [5])) hub_with_proto)))
     ''__proto__'' = None"
proof -
  have i: "installFromFile demo_env (File ''p.lhub'' (Some [5])) hub_with_proto =
     (\<lparr>ok = True, error = None\<rparr>,
      \<lparr>extensions = [\<lparr>iconUri = None, installedAt = 10, manifest = manifest_x\<rparr>,
                     \<lparr>iconUri = None, installedAt = 1700000000000, manifest = manifest_proto\<rparr>],
       storage = [(''com.t.x'', \<lparr>iconUri = None, installedAt = 10, mainJs = ''x1.js''\<rparr>)]\<rparr>)"
    unfolding install_ok[OF parse_proto]
    by (simp add: hub_with_proto_def storageLoad_def storageSave_def obj_set_def
        manifest_x_def manifest_proto_def demo_env_def)
  have "get_prop manifest_proto ''id'' = JStr ''__proto__''" by (simp add: manifest_proto_def)
  with i show ?thesis by simp
qed

text \<open>
  C4. Install then uninstall, and uninstall of an absent id. After \<^verbatim>\<open>installFromFile\<close> the
  new record is installed; after \<^verbatim>\<open>uninstallExtension\<close> of its id no installed record has
  that id and, when the durable write succeeds, the persisted map has no record under
  it. \<^verbatim>\<open>uninstallExtension\<close> has no failing path (its result is a state); on an id that is
  neither installed nor persisted it changes nothing (the durable read succeeding), and
  doing it twice is the same as doing it once.
\<close>

theorem install_then_uninstall:
  assumes "parseLhubWeb E f = Inr (m, src, icon)"
  shows "(let st1 = snd (installFromFile E f st);
              st2 = uninstallExtension E' (get_prop m ''id'') st1
          in \<lparr>iconUri = icon, installedAt = now E, manifest = m\<rparr> \<in> set (extensions st1) \<and>
             list_all (\<lambda>e. \<not> strict_eq (get_prop (manifest e) ''id'') (get_prop m ''id''))
               (extensions st2) \<and>
             (setItem_ok E' \<longrightarrow> map_of (storage st2) (js_string E' (get_prop m ''id'')) = None)) \<and>
         (getItem_ok E' \<and>
          list_all (\<lambda>e. \<not> strict_eq (get_prop (manifest e) ''id'') ident) (extensions st) \<and>
          map_of (storage st) (js_string E' ident) = None \<longrightarrow>
            uninstallExtension E' ident st = st) \<and>
         uninstallExtension E' ident (uninstallExtension E' ident st) =
           uninstallExtension E' ident st"
proof -
  have a: "\<lparr>iconUri = icon, installedAt = now E, manifest = m\<rparr>
            \<in> set (extensions (snd (installFromFile E f st)))"
    by (simp add: install_ok[OF assms])
  have b: "list_all (\<lambda>e. \<not> strict_eq (get_prop (manifest e) ''id'') i) (extensions (uninstallExtension E' i s))"
    for i s by (simp add: uninstallExtension_def Let_def list_all_iff)
  have c: "map_of (storage (uninstallExtension E' i s)) (js_string E' i) = None" if "setItem_ok E'"
    for i s using that by (simp add: uninstallExtension_def Let_def storageSave_def delete_conv')
  have d: "uninstallExtension E' ident st = st"
    if "getItem_ok E'" "list_all (\<lambda>e. \<not> strict_eq (get_prop (manifest e) ''id'') ident) (extensions st)"
      "map_of (storage st) (js_string E' ident) = None"
  proof -
    from that(2) have "filter (\<lambda>e. \<not> strict_eq (get_prop (manifest e) ''id'') ident) (extensions st)
        = extensions st" by (simp add: list_all_iff)
    moreover from that(3) have "js_string E' ident \<notin> fst ` set (storage st)"
      by (simp add: map_of_eq_None_iff)
    then have "AList.delete (js_string E' ident) (storage st) = storage st" by simp
    ultimately show ?thesis using that(1)
      by (simp add: uninstallExtension_def Let_def storageSave_def storageLoad_def)
  qed
  have e: "uninstallExtension E' ident (uninstallExtension E' ident st) =
           uninstallExtension E' ident st"
    by (simp add: uninstallExtension_def Let_def storageSave_def storageLoad_def delete_idem)
  from a b c d e show ?thesis by (simp add: Let_def)
qed

theorem install_then_uninstall_witness:
  "snd (installFromFile demo_env (File ''x1.lhub'' (Some [1])) \<lparr>extensions = [], storage = []\<rparr>) =
     \<lparr>extensions = [\<lparr>iconUri = None, installedAt = 1700000000000, manifest = manifest_x\<rparr>],
      storage = [(''com.t.x'', \<lparr>iconUri = None, installedAt = 1700000000000, mainJs = ''x1.js''\<rparr>)]\<rparr> \<and>
   uninstallExtension demo_env (JStr ''com.t.x'')
     (snd (installFromFile demo_env (File ''x1.lhub'' (Some [1])) \<lparr>extensions = [], storage = []\<rparr>)) =
     \<lparr>extensions = [], storage = []\<rparr> \<and>
   uninstallExtension demo_env (JStr ''com.t.x'') \<lparr>extensions = [], storage = []\<rparr> =
     \<lparr>extensions = [], storage = []\<rparr>"
proof -
  have i: "snd (installFromFile demo_env (File ''x1.lhub'' (Some [1])) \<lparr>extensions = [], storage = []\<rparr>) =
     \<lparr>extensions = [\<lparr>iconUri = None, installedAt = 1700000000000, manifest = manifest_x\<rparr>],
      storage = [(''com.t.x'', \<lparr>iconUri = None, installedAt = 1700000000000, mainJs = ''x1.js''\<rparr>)]\<rparr>"
    unfolding install_ok[OF parse_x1]
    by (simp add: storageLoad_def storageSave_def obj_set_def array_index_def digit_def
        manifest_x_def demo_env_def)
  have u: "uninstallExtension demo_env (JStr ''com.t.x'')
     \<lparr>extensions = [\<lparr>iconUri = None, installedAt = 1700000000000, manifest = manifest_x\<rparr>],
      storage = [(''com.t.x'', \<lparr>iconUri = None, installedAt = 1700000000000, mainJs = ''x1.js''\<rparr>)]\<rparr> =
     \<lparr>extensions = [], storage = []\<rparr>"
    by (simp add: uninstallExtension_def Let_def storageLoad_def storageSave_def manifest_x_def
        demo_env_def)
  have g: "getItem_ok demo_env" by (simp add: demo_env_def)
  from install_then_uninstall[OF parse_x1, of "\<lparr>extensions = [], storage = []\<rparr>" demo_env
      "JStr ''com.t.x''", THEN conjunct2, THEN conjunct1] g
  have "uninstallExtension demo_env (JStr ''com.t.x'') \<lparr>extensions = [], storage = []\<rparr> =
     \<lparr>extensions = [], storage = []\<rparr>" by simp
  with i u show ?thesis by simp
qed

section \<open>Properties of the Media Control Bridge\<close>

lemma handlersRef_replaced: "handlersRef (musicSetHandlers h s) = h"
  by (simp add: musicSetHandlers_def synchronize_def setupNativeMediaNotification_def Let_def
      split: option.splits)

lemma press_without_snapshot:
  assumes "notifInfo s = None"
  shows "press a (musicSetHandlers h s) = press a s"
  using assms by (simp add: musicSetHandlers_def press_def)

lemma press_on_native:
  assumes "platformOS s = Native"
  shows "press a (musicSetHandlers h s) = press a s"
  using assms
  by (simp add: musicSetHandlers_def press_def synchronize_def setupNativeMediaNotification_def
      Let_def split: option.splits)

lemma play_handler_kept:
  assumes "platformOS s = Web" "notifInfo s = Some info" "session s = Some ms"
      and "onPlay h = None"
  shows "press ''play'' (musicSetHandlers h s) = actionHandlers ms ''play''"
  using assms
  by (simp add: musicSetHandlers_def press_def synchronize_def setupWebMediaSession_def
      setActionHandlerIf_def setPositionState_def Let_def split: option.splits)

text \<open>
  C5. In a browser with a notification showing, \<^verbatim>\<open>setHandlers({onPlay: f1})\<close> followed by
  \<^verbatim>\<open>setHandlers({onPause: f2})\<close> replaces the handler set held in the ref, but the media
  session still has the play action registered for \<open>f1\<close>: \<^verbatim>\<open>setupWebMediaSession\<close> registers
  the handlers that are given and clears none. A press of play after the second call
  invokes \<open>f1\<close> (callback 1 below; \<open>f2\<close> is callback 2).
\<close>

theorem stale_play_handler_on_web:
  "handlersRef (musicSetHandlers (no_handlers\<lparr>onPause := Some 2\<rparr>)
     (musicSetHandlers (no_handlers\<lparr>onPlay := Some 1\<rparr>) (musicUpdate song web_provider))) =
     no_handlers\<lparr>onPause := Some 2\<rparr> \<and>
   press ''play'' (musicSetHandlers (no_handlers\<lparr>onPause := Some 2\<rparr>)
     (musicSetHandlers (no_handlers\<lparr>onPlay := Some 1\<rparr>) (musicUpdate song web_provider))) =
     Some 1"
  by (simp add: musicSetHandlers_def musicUpdate_def press_def synchronize_def
      setupWebMediaSession_def setActionHandlerIf_def setPositionState_def Let_def
      web_provider_def no_handlers_def fresh_session_def song_def)

text \<open>
  C8. At most one live video session, replaced on open. After \<^verbatim>\<open>open(A)\<close> and \<^verbatim>\<open>open(B)\<close>
  the provider renders one player, with B's options, and \<^verbatim>\<open>isOpen\<close> is true; after
  \<^verbatim>\<open>close()\<close> it renders none and \<^verbatim>\<open>isOpen\<close> is false. In every state it renders at most one.
\<close>

theorem video_open_replaces:
  "live_sessions (videoOpen B (videoOpen A s)) = [B] \<and>
   isOpen (videoOpen A s) \<and>
   isOpen (videoOpen B (videoOpen A s)) \<and>
   live_sessions (videoClose (videoOpen B (videoOpen A s))) = [] \<and>
   \<not> isOpen (videoClose (videoOpen B (videoOpen A s))) \<and>
   length (live_sessions s) \<le> 1"
  by (simp add: live_sessions_def videoOpen_def videoClose_def isOpen_def split: option.splits)

theorem video_open_replaces_witness:
  "live_sessions (videoOpen movie_b (videoOpen movie_a web_provider)) = [movie_b] \<and>
   isOpen (videoOpen movie_b (videoOpen movie_a web_provider)) \<and>
   \<not> isOpen (videoClose (videoOpen movie_b (videoOpen movie_a web_provider)))"
  using video_open_replaces[of movie_b movie_a web_provider] by simp

text \<open>
  C9. \<^verbatim>\<open>skip(s)\<close> leaves the state as it is and, when the engine is mounted, issues exactly
  one command: a seek to \<open>max 0 (min duration (position + s))\<close> seconds, in milliseconds;
  that target lies in \<open>[0, duration]\<close> for a duration that is not negative. \<^verbatim>\<open>togglePlay\<close>
  in the ended state issues a replay, never a play, and clears the ended flag.
\<close>

theorem skip_clamps_and_toggle_replays:
  "skip s v = (issue v (SetPositionAsync (max 0 (min (duration v) (position v + s)) * 1000)), v) \<and>
   (videoRef v \<longrightarrow>
      fst (skip s v) = [SetPositionAsync (max 0 (min (duration v) (position v + s)) * 1000)]) \<and>
   (0 \<le> duration v \<longrightarrow>
      0 \<le> max 0 (min (duration v) (position v + s)) \<and>
      max 0 (min (duration v) (position v + s)) \<le> duration v) \<and>
   (isEnded v \<longrightarrow>
      togglePlay v = (issue v ReplayAsync, v\<lparr>isEnded := False\<rparr>) \<and>
      PlayAsync \<notin> set (fst (togglePlay v)) \<and>
      \<not> isEnded (snd (togglePlay v)) \<and>
      (videoRef v \<longrightarrow> fst (togglePlay v) = [ReplayAsync]))"
  by (simp add: skip_def togglePlay_def issue_def Let_def)

theorem skip_clamps_and_toggle_replays_witness:
  "fst (skip 30 (initial_video\<lparr>duration := 100, position := 90, videoRef := True\<rparr>)) =
     [SetPositionAsync 100000] \<and>
   fst (skip (- 30) (initial_video\<lparr>duration := 100, position := 10, videoRef := True\<rparr>)) =
     [SetPositionAsync 0] \<and>
   togglePlay (initial_video\<lparr>duration := 100, position := 100, isEnded := True, videoRef := True\<rparr>) =
     ([ReplayAsync], initial_video\<lparr>duration := 100, position := 100, isEnded := False, videoRef := True\<rparr>)"
proof -
  let ?a = "initial_video\<lparr>duration := 100, position := 90, videoRef := True\<rparr>"
  let ?b = "initial_video\<lparr>duration := 100, position := 10, videoRef := True\<rparr>"
  let ?c = "initial_video\<lparr>duration := 100, position := 100, isEnded := True, videoRef := True\<rparr>"
  have va: "videoRef ?a" and vb: "videoRef ?b" and vc: "videoRef ?c" and ec: "isEnded ?c"
    by (simp_all add: initial_video_def)
  from skip_clamps_and_toggle_replays[of 30 ?a, THEN conjunct2, THEN conjunct1] va
  have 1: "fst (skip 30 ?a) = [SetPositionAsync 100000]" by (simp add: initial_video_def)
  from skip_clamps_and_toggle_replays[of "- 30" ?b, THEN conjunct2, THEN conjunct1] vb
  have 2: "fst (skip (- 30) ?b) = [SetPositionAsync 0]" by (simp add: initial_video_def)
  from skip_clamps_and_toggle_replays[of 0 ?c, THEN conjunct2, THEN conjunct2, THEN conjunct2] ec vc
  have 3: "togglePlay ?c = ([ReplayAsync], ?c\<lparr>isEnded := False\<rparr>)"
    by (simp add: issue_def)
  from 1 2 3 show ?thesis by (simp add: initial_video_def)
qed

section \<open>Properties of the media handles\<close>

text \<open>
  C10. While the slot is unset, every media handle is a no-op: \<^verbatim>\<open>update\<close>,
  \<^verbatim>\<open>setHandlers\<close>, \<^verbatim>\<open>clear\<close>, \<^verbatim>\<open>open\<close> and \<^verbatim>\<open>close\<close> leave everything as it is (and, having no
  failing path, throw nothing), \<^verbatim>\<open>isOpen()\<close> is false and \<^verbatim>\<open>getCurrent()\<close> is null.
\<close>

theorem handles_inert_before_mount:
  assumes "globalMediaPlayerRef w = Unset"
  shows "musicPlayer_update info w = w \<and>
         musicPlayer_setHandlers handlers w = w \<and>
         musicPlayer_clear w = w \<and>
         musicPlayer_getCurrent w = None \<and>
         videoPlayer_open options w = w \<and>
         videoPlayer_close w = w \<and>
         videoPlayer_isOpen w = False"
  using assms
  by (simp add: musicPlayer_update_def musicPlayer_setHandlers_def musicPlayer_clear_def
      musicPlayer_getCurrent_def videoPlayer_open_def videoPlayer_close_def
      videoPlayer_isOpen_def through_def)

theorem handles_inert_before_mount_witness:
  "musicPlayer_update song \<lparr>globalMediaPlayerRef = Unset, provider = web_provider\<rparr> =
     \<lparr>globalMediaPlayerRef = Unset, provider = web_provider\<rparr> \<and>
   videoPlayer_isOpen \<lparr>globalMediaPlayerRef = Unset, provider = web_provider\<rparr> = False \<and>
   musicPlayer_getCurrent \<lparr>globalMediaPlayerRef = Unset, provider = web_provider\<rparr> = None"
proof -
  have u: "globalMediaPlayerRef \<lparr>globalMediaPlayerRef = Unset, provider = web_provider\<rparr> = Unset"
    by simp
  from handles_inert_before_mount[OF u, of song] show ?thesis by simp
qed

section \<open>Properties of the Navigation Stack Engine\<close>

text \<open>
  Transitions taken one at a time keep the navigator at rest: the stack stays non-empty
  and rooted, \<^verbatim>\<open>pop\<close> drops the last entry of a longer stack and does nothing at the root,
  \<^verbatim>\<open>popToRoot\<close> leaves the root entry alone.
\<close>

lemma transition_settled:
  assumes "settled n" "is_call e"
  shows "settled (transition n e)"
proof (cases e)
  case (Push name ps)
  with assms show ?thesis
    by (simp add: settled_def transition_def push_def midpoint_def render_def)
next
  case Pop
  show ?thesis
  proof (cases "length (stack n) \<le> 1")
    case True
    with assms Pop show ?thesis
      by (simp add: settled_def transition_def pop_def midpoint_def render_def)
  next
    case False
    then obtain x y zs where "stack n = x # y # zs"
      by (cases "stack n"; cases "tl (stack n)") auto
    with assms Pop show ?thesis
      by (simp add: settled_def transition_def pop_def midpoint_def render_def)
  qed
next
  case PopToRoot
  with assms show ?thesis
    by (simp add: settled_def transition_def popToRoot_def midpoint_def render_def)
next
  case Midpoint
  with assms show ?thesis by simp
next
  case Render
  with assms show ?thesis by simp
qed

lemma sequential_transitions_settled:
  assumes "settled n" "list_all is_call es"
  shows "settled (foldl transition n es)"
  using assms by (induction es arbitrary: n) (simp_all add: transition_settled)

lemma initial_navigator_settled: "settled initial_navigator"
  by (simp add: settled_def initial_navigator_def)

lemma sequential_pop:
  assumes "settled n"
  shows "stack (transition n Pop) = (if length (stack n) > 1 then butlast (stack n) else stack n)"
  using assms by (simp add: settled_def transition_def pop_def midpoint_def render_def)

lemma sequential_popToRoot:
  assumes "settled n"
  shows "stack (transition n PopToRoot) = [root_entry]"
  using assms by (simp add: settled_def transition_def popToRoot_def midpoint_def render_def)

text \<open>
  C6. The guard of \<^verbatim>\<open>pop\<close> reads the stack of the last render, while its update is
  applied later, at the midpoint of the transition, to the stack of that moment. Two
  \<^verbatim>\<open>pop()\<close> calls made on the stack \<^verbatim>\<open>[root, a]\<close> before the first one's midpoint both pass
  the guard, and the two updates leave the stack empty: its length is 0, the root entry
  is gone and \<^verbatim>\<open>current\<close> is undefined.
\<close>

theorem double_pop_empties_stack:
  "stack (run_events [Push ''a'' JUndefined, Midpoint, Render] initial_navigator) =
     [root_entry, \<lparr>screenName = ''a'', params = JObj 0 []\<rparr>] \<and>
   stack (run_events [Push ''a'' JUndefined, Midpoint, Render,
                      Pop, Pop, Midpoint, Render, Midpoint, Render] initial_navigator) = [] \<and>
   current (run_events [Push ''a'' JUndefined, Midpoint, Render,
                        Pop, Pop, Midpoint, Render, Midpoint, Render] initial_navigator) = None"
  by (simp add: run_events_def initial_navigator_def push_def pop_def midpoint_def render_def
      current_def)

end
